theory Spec2Isabelle
  imports Complex_Main
begin

section \<open>Data model\<close>

text \<open>
  The repository holds two copies of the service module: \<^verbatim>\<open>src/services/api.js\<close>
  (with the map flow) and \<^verbatim>\<open>frontend/src/services/api.js\<close>. Both are
  embedded; the definitions of the second carry the prefix \<open>fe_\<close>.

  A location is the object \<^verbatim>\<open>{ name, lat, lon, visit_sequence }\<close>. The field
  \<open>visit_sequence\<close> is optional: \<open>None\<close> stands for a field that is absent, null or
  undefined, which is what the operator \<^verbatim>\<open>??\<close> tests.
\<close>

record location =
  name :: string
  lat :: real
  lon :: real
  visit_sequence :: "int option"

text \<open>
  What axios rejects with: \<^verbatim>\<open>error.message\<close> and the optional
  \<^verbatim>\<open>error.response\<close> (absent when no response was received), whose optional
  \<^verbatim>\<open>data\<close> has an optional \<^verbatim>\<open>detail\<close>.
\<close>

record error_body =
  detail :: "string option"

record error_response =
  status :: nat
  data :: "error_body option"

record axios_error =
  message :: string
  response :: "error_response option"

text \<open>
  The values the module throws: \<^verbatim>\<open>new Error(msg)\<close>, or the rejection of axios,
  passed on as it is.
\<close>

datatype js_error = Error string | AxiosError axios_error

fun message_of :: "js_error \<Rightarrow> string" where
  "message_of (Error msg) = msg"
| "message_of (AxiosError e) = message e"

text \<open>
  The body of a successful reply to \<^verbatim>\<open>POST /extract-sequence\<close>: an object whose
  \<^verbatim>\<open>parsed_locations\<close> may be missing.
\<close>

record extraction_result =
  parsed_locations :: "location list option"

text \<open>A JavaScript object with string-valued fields, as a list of key and value.\<close>

type_synonym json_object = "(string \<times> string) list"

text \<open>
  The transport client, \<^verbatim>\<open>api\<close>: what each of the three remote calls answers,
  the body of the reply (\<^verbatim>\<open>response.data\<close>) or the rejection. The interceptors
  of the client log and pass the reply or the rejection on unchanged. The optimization
  result is opaque to this layer (the type variable \<open>'r\<close>).
\<close>

record 'r transport =
  post_extract_sequence :: "string \<Rightarrow> axios_error + extraction_result"
  post_optimize_route :: "location list \<Rightarrow> axios_error + 'r"
  get_health :: "axios_error + json_object"

text \<open>The calls made on the transport client, in order, with their bodies.\<close>

datatype request =
  POST_extract_sequence string
| POST_optimize_route "location list"
| GET_health

text \<open>
  An \<^verbatim>\<open>async\<close> function: it rejects (\<open>Inl\<close>) or resolves (\<open>Inr\<close>), and has
  made the listed calls by then.
\<close>

type_synonym 'a async = "(js_error + 'a) \<times> request list"

record 'r pipeline_result =
  extracted :: extraction_result
  optimized :: 'r

section \<open>The service module \<^verbatim>\<open>src/services/api.js\<close>\<close>

definition extractSequence :: "'r transport \<Rightarrow> string \<Rightarrow> extraction_result async" where
  "extractSequence api requestText =
     (case post_extract_sequence api requestText of
        Inl e \<Rightarrow> (Inl (AxiosError e), [POST_extract_sequence requestText])
      | Inr d \<Rightarrow> (Inr d, [POST_extract_sequence requestText]))"

text \<open>
  \<^verbatim>\<open>parsedLocations.map((loc, index) => ({ name, lat, lon,
     visit_sequence: loc.visit_sequence ?? index + 1 }))\<close>
\<close>

definition optimizeRoute_payload :: "location list \<Rightarrow> location list" where
  "optimizeRoute_payload parsedLocations =
     map (\<lambda>(index, loc).
            \<lparr>name = name loc, lat = lat loc, lon = lon loc,
             visit_sequence =
               Some (case visit_sequence loc of Some v \<Rightarrow> v | None \<Rightarrow> int index + 1)\<rparr>)
         (enumerate 0 parsedLocations)"

definition optimizeRoute :: "'r transport \<Rightarrow> location list \<Rightarrow> 'r async" where
  "optimizeRoute api parsedLocations =
     (let payload = optimizeRoute_payload parsedLocations in
      case post_optimize_route api payload of
        Inl e \<Rightarrow> (Inl (AxiosError e), [POST_optimize_route payload])
      | Inr d \<Rightarrow> (Inr d, [POST_optimize_route payload]))"

definition processLogisticsRequest ::
    "'r transport \<Rightarrow> string \<Rightarrow> 'r pipeline_result async" where
  "processLogisticsRequest api requestText =
     (case extractSequence api requestText of
        (Inl e, calls) \<Rightarrow> (Inl e, calls)
      | (Inr ex, calls) \<Rightarrow>
          (case parsed_locations ex of
             None \<Rightarrow> (Inl (Error ''At least two locations are required.''), calls)
           | Some locs \<Rightarrow>
               if length locs < 2
               then (Inl (Error ''At least two locations are required.''), calls)
               else (case optimizeRoute api locs of
                       (Inl e, calls') \<Rightarrow> (Inl e, calls @ calls')
                     | (Inr opt, calls') \<Rightarrow>
                         (Inr \<lparr>extracted = ex, optimized = opt\<rparr>, calls @ calls'))))"

text \<open>
  \<^verbatim>\<open>locations.map((loc, index) => ({ name, lat, lon, visit_sequence: index + 1 }))\<close>
\<close>

definition enrichedLocations :: "location list \<Rightarrow> location list" where
  "enrichedLocations locations =
     map (\<lambda>(index, loc).
            \<lparr>name = name loc, lat = lat loc, lon = lon loc,
             visit_sequence = Some (int index + 1)\<rparr>)
         (enumerate 0 locations)"

text \<open>
  The argument of \<^verbatim>\<open>optimizeFromMap\<close> may be null or undefined (\<open>None\<close>):
  the guard is \<^verbatim>\<open>!locations || locations.length < 2\<close>.
\<close>

definition optimizeFromMap :: "'r transport \<Rightarrow> location list option \<Rightarrow> 'r async" where
  "optimizeFromMap api locations =
     (case locations of
        None \<Rightarrow> (Inl (Error ''Select at least two locations.''), [])
      | Some locs \<Rightarrow>
          if length locs < 2
          then (Inl (Error ''Select at least two locations.''), [])
          else optimizeRoute api (enrichedLocations locs))"

definition healthCheck :: "'r transport \<Rightarrow> json_object async" where
  "healthCheck api =
     (case get_health api of
        Inr d \<Rightarrow> (Inr d, [GET_health])
      | Inl e \<Rightarrow> (Inr [(''status'', ''offline'')], [GET_health]))"

section \<open>The service module \<^verbatim>\<open>frontend/src/services/api.js\<close>\<close>

text \<open>
  \<^verbatim>\<open>error.response?.data?.detail\<close>: undefined (\<open>None\<close>) when there is no
  response, no body, or no detail in the body.
\<close>

definition detail_of :: "axios_error \<Rightarrow> string option" where
  "detail_of e =
     (case response e of
        None \<Rightarrow> None
      | Some r \<Rightarrow> (case data r of None \<Rightarrow> None | Some b \<Rightarrow> detail b))"

text \<open>
  \<^verbatim>\<open>x || fallback\<close> on an optional string: undefined and the empty string are
  both falsy.
\<close>

fun or_else :: "string option \<Rightarrow> string \<Rightarrow> string" where
  "or_else None fallback = fallback"
| "or_else (Some x) fallback = (if x = [] then fallback else x)"

definition fe_extractSequence :: "'r transport \<Rightarrow> string \<Rightarrow> extraction_result async" where
  "fe_extractSequence api requestText =
     (case post_extract_sequence api requestText of
        Inr d \<Rightarrow> (Inr d, [POST_extract_sequence requestText])
      | Inl e \<Rightarrow>
          (Inl (Error (or_else (detail_of e)
                  ''Failed to extract locations from your request. Please try again.'')),
           [POST_extract_sequence requestText]))"

definition fe_optimizeRoute :: "'r transport \<Rightarrow> location list \<Rightarrow> 'r async" where
  "fe_optimizeRoute api parsedLocations =
     (case post_optimize_route api parsedLocations of
        Inr d \<Rightarrow> (Inr d, [POST_optimize_route parsedLocations])
      | Inl e \<Rightarrow>
          (Inl (Error (or_else (detail_of e)
                  ''Failed to optimize route. Please check your input and try again.'')),
           [POST_optimize_route parsedLocations]))"

text \<open>The outer \<^verbatim>\<open>catch (error) { throw error; }\<close> passes every error on.\<close>

definition fe_processLogisticsRequest ::
    "'r transport \<Rightarrow> string \<Rightarrow> 'r pipeline_result async" where
  "fe_processLogisticsRequest api requestText =
     (case fe_extractSequence api requestText of
        (Inl e, calls) \<Rightarrow> (Inl e, calls)
      | (Inr extractedData, calls) \<Rightarrow>
          (case parsed_locations extractedData of
             None \<Rightarrow>
               (Inl (Error ''No locations found in your request. Please provide city names.''),
                calls)
           | Some locs \<Rightarrow>
               if length locs = 0
               then (Inl (Error
                       ''No locations found in your request. Please provide city names.''),
                     calls)
               else (case fe_optimizeRoute api locs of
                       (Inl e, calls') \<Rightarrow> (Inl e, calls @ calls')
                     | (Inr optimizedRoute, calls') \<Rightarrow>
                         (Inr \<lparr>extracted = extractedData, optimized = optimizedRoute\<rparr>,
                          calls @ calls'))))"

definition fe_healthCheck :: "'r transport \<Rightarrow> json_object async" where
  "fe_healthCheck api =
     (case get_health api of
        Inr d \<Rightarrow> (Inr d, [GET_health])
      | Inl e \<Rightarrow> (Inr [(''status'', ''offline''), (''error'', message e)], [GET_health]))"

section \<open>The workflow state of \<^verbatim>\<open>App.jsx\<close>\<close>

text \<open>
  The file holds two copies of the component. The first has the text flow only; the
  second adds the map flow and the state \<open>showMap\<close>. The state is the tuple of the
  \<^verbatim>\<open>useState\<close> cells; \<open>None\<close> is \<^verbatim>\<open>null\<close>.
\<close>

datatype stage = Input | Processing | Results

record 'r app_state =
  query :: string
  loading :: bool
  error :: "string option"
  extractedLocations :: "location list option"
  optimizationResult :: "'r option"
  stage :: stage

record 'r map_app_state = "'r app_state" +
  showMap :: bool

text \<open>
  \<^verbatim>\<open>String.prototype.trim\<close> on a string of code units below 256: the white
  space and line terminators of JavaScript among them are tab, line feed, vertical tab,
  form feed, carriage return, space and no-break space.
\<close>

definition isWhiteSpace :: "char \<Rightarrow> bool" where
  "isWhiteSpace c =
     (c = CHR 0x09 \<or> c = CHR 0x0A \<or> c = CHR 0x0B \<or> c = CHR 0x0C \<or> c = CHR 0x0D \<or>
      c = CHR 0x20 \<or> c = CHR 0xA0)"

definition trim :: "string \<Rightarrow> string" where
  "trim s = rev (dropWhile isWhiteSpace (rev (dropWhile isWhiteSpace s)))"

text \<open>
  The handlers are given the function they import from \<^verbatim>\<open>./services/api\<close>, so
  that either copy of the service module can stand behind them. Each returns the state
  after its last setter, and the calls made on the transport client.

  The first copy: \<^verbatim>\<open>setError(err.message)\<close>.
\<close>

definition handleSubmit_1 ::
    "(string \<Rightarrow> 'r pipeline_result async) \<Rightarrow> ('r, 'z) app_state_scheme
       \<Rightarrow> ('r, 'z) app_state_scheme \<times> request list" where
  "handleSubmit_1 process s =
     (if trim (query s) = []
      then (s\<lparr>error := Some ''Please enter a logistics request''\<rparr>, [])
      else
        let s1 = s\<lparr>loading := True, error := None, stage := Processing,
                    extractedLocations := None, optimizationResult := None\<rparr>
        in case process (query s) of
             (Inr result, calls) \<Rightarrow>
               (s1\<lparr>extractedLocations := parsed_locations (extracted result),
                   optimizationResult := Some (optimized result),
                   stage := Results, loading := False\<rparr>, calls)
           | (Inl err, calls) \<Rightarrow>
               (s1\<lparr>error := Some (message_of err), stage := Input, loading := False\<rparr>,
                calls))"

text \<open>The second copy: \<^verbatim>\<open>setError(err.message || 'Something went wrong')\<close>.\<close>

definition handleSubmit ::
    "(string \<Rightarrow> 'r pipeline_result async) \<Rightarrow> ('r, 'z) app_state_scheme
       \<Rightarrow> ('r, 'z) app_state_scheme \<times> request list" where
  "handleSubmit process s =
     (if trim (query s) = []
      then (s\<lparr>error := Some ''Please enter a logistics request''\<rparr>, [])
      else
        let s1 = s\<lparr>loading := True, error := None, stage := Processing,
                    extractedLocations := None, optimizationResult := None\<rparr>
        in case process (query s) of
             (Inr result, calls) \<Rightarrow>
               (s1\<lparr>extractedLocations := parsed_locations (extracted result),
                   optimizationResult := Some (optimized result),
                   stage := Results, loading := False\<rparr>, calls)
           | (Inl err, calls) \<Rightarrow>
               (s1\<lparr>error := Some (or_else (Some (message_of err)) ''Something went wrong''),
                   stage := Input, loading := False\<rparr>, calls))"

definition handleMapOptimization ::
    "(location list \<Rightarrow> 'r async) \<Rightarrow> location list \<Rightarrow> ('r, 'z) map_app_state_scheme
       \<Rightarrow> ('r, 'z) map_app_state_scheme \<times> request list" where
  "handleMapOptimization optimize locations s =
     (let s1 = s\<lparr>showMap := False, loading := True, error := None, stage := Processing,
                  extractedLocations := None, optimizationResult := None\<rparr>
      in case optimize locations of
           (Inr result, calls) \<Rightarrow>
             (s1\<lparr>extractedLocations := Some locations,
                 optimizationResult := Some result,
                 stage := Results, loading := False\<rparr>, calls)
         | (Inl err, calls) \<Rightarrow>
             (s1\<lparr>error := Some (or_else (Some (message_of err)) ''Route optimization failed''),
                 stage := Input, loading := False\<rparr>, calls))"

text \<open>\<^verbatim>\<open>handleReset\<close> is the same text in both copies.\<close>

definition handleReset :: "('r, 'z) app_state_scheme \<Rightarrow> ('r, 'z) app_state_scheme" where
  "handleReset s =
     s\<lparr>query := '''', extractedLocations := None, optimizationResult := None,
       error := None, stage := Input\<rparr>"

section \<open>Concrete inputs\<close>

text \<open>The initial values of the \<^verbatim>\<open>useState\<close> cells, in the two copies.\<close>

definition initial_state :: "nat app_state" where
  "initial_state =
     \<lparr>query = '''', loading = False, error = None, extractedLocations = None,
      optimizationResult = None, stage = Input\<rparr>"

definition initial_map_state :: "nat map_app_state" where
  "initial_map_state =
     \<lparr>query = '''', loading = False, error = None, extractedLocations = None,
      optimizationResult = None, stage = Input, showMap = False\<rparr>"

definition delhi :: location where
  "delhi = \<lparr>name = ''Delhi'', lat = 28, lon = 77, visit_sequence = None\<rparr>"

definition mumbai :: location where
  "mumbai = \<lparr>name = ''Mumbai'', lat = 19, lon = 72, visit_sequence = Some 7\<rparr>"

definition stop_A :: location where
  "stop_A = \<lparr>name = ''A'', lat = 1, lon = 1, visit_sequence = None\<rparr>"

definition stop_B :: location where
  "stop_B = \<lparr>name = ''B'', lat = 2, lon = 2, visit_sequence = None\<rparr>"

text \<open>
  A service that extracts the given locations from any text and answers an
  optimization with the number of stops (standing for the opaque result).
\<close>

definition replying :: "location list \<Rightarrow> nat transport" where
  "replying locs =
     \<lparr>post_extract_sequence = (\<lambda>requestText. Inr \<lparr>parsed_locations = Some locs\<rparr>),
      post_optimize_route = (\<lambda>payload. Inr (length payload)),
      get_health = Inr [(''status'', ''healthy'')]\<rparr>"

text \<open>A service whose every call fails with the given error.\<close>

definition failing :: "axios_error \<Rightarrow> nat transport" where
  "failing e =
     \<lparr>post_extract_sequence = (\<lambda>requestText. Inl e),
      post_optimize_route = (\<lambda>payload. Inl e),
      get_health = Inl e\<rparr>"

text \<open>A reply with status 500 and the body \<^verbatim>\<open>{ detail: d }\<close>; and no reply at all.\<close>

definition status_500 :: "string \<Rightarrow> axios_error" where
  "status_500 d =
     \<lparr>message = ''Request failed with status code 500'',
      response = Some \<lparr>status = 500, data = Some \<lparr>detail = Some d\<rparr>\<rparr>\<rparr>"

definition no_response :: axios_error where
  "no_response = \<lparr>message = ''timeout of 60000ms exceeded'', response = None\<rparr>"

section \<open>The request of the optimization adapter\<close>

lemma length_optimizeRoute_payload:
  "length (optimizeRoute_payload locs) = length locs"
  by (simp add: optimizeRoute_payload_def)

lemma nth_optimizeRoute_payload:
  "i < length locs \<Longrightarrow>
   optimizeRoute_payload locs ! i =
     \<lparr>name = name (locs ! i), lat = lat (locs ! i), lon = lon (locs ! i),
      visit_sequence =
        Some (case visit_sequence (locs ! i) of Some v \<Rightarrow> v | None \<Rightarrow> int i + 1)\<rparr>"
  by (simp add: optimizeRoute_payload_def nth_enumerate_eq)

lemma optimizeRoute_calls:
  "snd (optimizeRoute api locs) = [POST_optimize_route (optimizeRoute_payload locs)]"
  by (simp add: optimizeRoute_def Let_def split: sum.splits)

text \<open>
  The copy \<^verbatim>\<open>frontend/src/services/api.js\<close> has no such step: it posts the list
  it is given.
\<close>

lemma fe_optimizeRoute_sends_unchanged:
  "snd (fe_optimizeRoute api locs) = [POST_optimize_route locs]"
  by (simp add: fe_optimizeRoute_def split: sum.splits)

text \<open>
  C1, as written, fails for \<^verbatim>\<open>optimizeRoute\<close> of
  \<^verbatim>\<open>frontend/src/services/api.js\<close>: given one location without a
  \<open>visit_sequence\<close>, the request carries that location as it is, not with the
  number 1.
\<close>

theorem fe_optimizeRoute_sequence_counterexample:
  "visit_sequence delhi = None \<and>
   snd (fe_optimizeRoute (replying []) [delhi]) = [POST_optimize_route [delhi]] \<and>
   snd (fe_optimizeRoute (replying []) [delhi]) \<noteq>
     [POST_optimize_route [delhi\<lparr>visit_sequence := Some 1\<rparr>]]"
  by (simp add: fe_optimizeRoute_def replying_def delhi_def)

text \<open>
  C1, amended. For every list of locations given to \<^verbatim>\<open>optimizeRoute\<close> of
  \<^verbatim>\<open>src/services/api.js\<close>, exactly one request is sent; its list has the length
  and the order of the input, and its entry \<open>i\<close> has the name and coordinates of input
  entry \<open>i\<close>, with that entry's own \<open>visit_sequence\<close> when it has one and \<open>i + 1\<close>
  otherwise. The \<^verbatim>\<open>optimizeRoute\<close> of \<^verbatim>\<open>frontend/src/services/api.js\<close>
  sends one request with the list exactly as given: same order, every
  \<open>visit_sequence\<close> as it came, and none assigned where it is missing.
\<close>

theorem optimizeRoute_request_in_both_copies:
  "(\<exists>payload. snd (optimizeRoute api locs) = [POST_optimize_route payload] \<and>
      length payload = length locs \<and>
      (\<forall>i<length locs.
         payload ! i =
           \<lparr>name = name (locs ! i), lat = lat (locs ! i), lon = lon (locs ! i),
            visit_sequence =
              Some (case visit_sequence (locs ! i) of Some v \<Rightarrow> v | None \<Rightarrow> int i + 1)\<rparr>)) \<and>
   snd (fe_optimizeRoute api locs) = [POST_optimize_route locs]"
proof -
  have "snd (optimizeRoute api locs) = [POST_optimize_route (optimizeRoute_payload locs)]"
    by (rule optimizeRoute_calls)
  then have
    "\<exists>payload. snd (optimizeRoute api locs) = [POST_optimize_route payload] \<and>
       length payload = length locs \<and>
       (\<forall>i<length locs.
          payload ! i =
            \<lparr>name = name (locs ! i), lat = lat (locs ! i), lon = lon (locs ! i),
             visit_sequence =
               Some (case visit_sequence (locs ! i) of Some v \<Rightarrow> v | None \<Rightarrow> int i + 1)\<rparr>)"
    using length_optimizeRoute_payload nth_optimizeRoute_payload by blast
  then show ?thesis
    using fe_optimizeRoute_sends_unchanged [of api locs] by simp
qed

theorem optimizeRoute_request_in_both_copies_witness:
  "snd (optimizeRoute (replying []) [delhi, mumbai]) =
     [POST_optimize_route [delhi\<lparr>visit_sequence := Some 1\<rparr>, mumbai]] \<and>
   snd (fe_optimizeRoute (replying []) [delhi, mumbai]) =
     [POST_optimize_route [delhi, mumbai]]"
proof -
  note both = optimizeRoute_request_in_both_copies [of "replying []" "[delhi, mumbai]"]
  from both obtain payload where
    sent: "snd (optimizeRoute (replying []) [delhi, mumbai]) = [POST_optimize_route payload]"
    and len: "length payload = length [delhi, mumbai]"
    and nth: "\<forall>i<length [delhi, mumbai].
        payload ! i =
          \<lparr>name = name ([delhi, mumbai] ! i), lat = lat ([delhi, mumbai] ! i),
           lon = lon ([delhi, mumbai] ! i),
           visit_sequence =
             Some (case visit_sequence ([delhi, mumbai] ! i) of
                     Some v \<Rightarrow> v | None \<Rightarrow> int i + 1)\<rparr>"
    by blast
  from nth have "payload ! 0 = delhi\<lparr>visit_sequence := Some 1\<rparr>"
    and "payload ! 1 = mumbai"
    by (simp_all add: delhi_def mumbai_def)
  with len have "payload = [delhi\<lparr>visit_sequence := Some 1\<rparr>, mumbai]"
    by (auto simp: length_Suc_conv)
  with sent both show ?thesis by simp
qed

section \<open>The text flow\<close>

text \<open>A reply without \<^verbatim>\<open>parsed_locations\<close> is refused like a short list.\<close>

lemma processLogisticsRequest_missing_list:
  assumes "post_extract_sequence api requestText = Inr ex"
    and "parsed_locations ex = None"
  shows "processLogisticsRequest api requestText =
           (Inl (Error ''At least two locations are required.''),
            [POST_extract_sequence requestText])"
  using assms by (simp add: processLogisticsRequest_def extractSequence_def)

text \<open>
  The copy \<^verbatim>\<open>frontend/src/services/api.js\<close> refuses the empty list only, with
  another message, and sends a single location on to the optimizer.
\<close>

lemma fe_processLogisticsRequest_no_location:
  assumes "post_extract_sequence api requestText = Inr ex"
    and "parsed_locations ex = Some []"
  shows "fe_processLogisticsRequest api requestText =
           (Inl (Error ''No locations found in your request. Please provide city names.''),
            [POST_extract_sequence requestText])"
  using assms by (simp add: fe_processLogisticsRequest_def fe_extractSequence_def)

lemma fe_processLogisticsRequest_one_location:
  assumes "post_extract_sequence api requestText = Inr ex"
    and "parsed_locations ex = Some [loc]"
  shows "snd (fe_processLogisticsRequest api requestText) =
           [POST_extract_sequence requestText, POST_optimize_route [loc]]"
  using assms
  by (simp add: fe_processLogisticsRequest_def fe_extractSequence_def fe_optimizeRoute_def
        split: sum.splits)

lemma processLogisticsRequest_short_list:
  assumes "post_extract_sequence api requestText = Inr ex"
    and "parsed_locations ex = Some locs"
    and "length locs < 2"
  shows "processLogisticsRequest api requestText =
           (Inl (Error ''At least two locations are required.''),
            [POST_extract_sequence requestText])"
  using assms by (simp add: processLogisticsRequest_def extractSequence_def)

text \<open>
  C2, as written, fails for \<^verbatim>\<open>processLogisticsRequest\<close> of
  \<^verbatim>\<open>frontend/src/services/api.js\<close>. When one location is extracted, the function
  calls the optimizer and resolves; when none is extracted, it rejects with another
  message.
\<close>

theorem fe_processLogisticsRequest_counterexample:
  "fe_processLogisticsRequest (replying [delhi]) ''Delhi'' =
     (Inr \<lparr>extracted = \<lparr>parsed_locations = Some [delhi]\<rparr>, optimized = 1\<rparr>,
      [POST_extract_sequence ''Delhi'', POST_optimize_route [delhi]]) \<and>
   fe_processLogisticsRequest (replying []) ''nowhere'' =
     (Inl (Error ''No locations found in your request. Please provide city names.''),
      [POST_extract_sequence ''nowhere'']) \<and>
   fst (fe_processLogisticsRequest (replying []) ''nowhere'') \<noteq>
     Inl (Error ''At least two locations are required.'')"
  by (simp add: fe_processLogisticsRequest_def fe_extractSequence_def fe_optimizeRoute_def
        replying_def)

text \<open>
  C2, amended. When the extraction call succeeds with fewer than two locations:
  \<^verbatim>\<open>processLogisticsRequest\<close> of \<^verbatim>\<open>src/services/api.js\<close> rejects with the
  message "At least two locations are required." and the only call made is the
  extraction, so the optimization adapter, which sends a request whenever it is called
  (\<open>optimizeRoute_calls\<close>), is not called. The \<^verbatim>\<open>processLogisticsRequest\<close> of
  \<^verbatim>\<open>frontend/src/services/api.js\<close> rejects only when no location was extracted,
  with the message "No locations found in your request. Please provide city names." and
  after the extraction call alone; with one location it calls the optimization adapter
  with that location.
\<close>

theorem processLogisticsRequest_short_list_in_both_copies:
  assumes "post_extract_sequence api requestText = Inr ex"
    and "parsed_locations ex = Some locs"
    and "length locs < 2"
  shows "processLogisticsRequest api requestText =
           (Inl (Error ''At least two locations are required.''),
            [POST_extract_sequence requestText]) \<and>
         (locs = [] \<longrightarrow>
            fe_processLogisticsRequest api requestText =
              (Inl (Error ''No locations found in your request. Please provide city names.''),
               [POST_extract_sequence requestText])) \<and>
         (\<forall>loc. locs = [loc] \<longrightarrow>
            snd (fe_processLogisticsRequest api requestText) =
              [POST_extract_sequence requestText, POST_optimize_route [loc]])"
  using assms processLogisticsRequest_short_list [of api requestText ex locs]
    fe_processLogisticsRequest_no_location [of api requestText ex]
    fe_processLogisticsRequest_one_location [of api requestText ex]
  by simp

theorem processLogisticsRequest_short_list_in_both_copies_witness:
  "processLogisticsRequest (replying [delhi]) ''Delhi'' =
     (Inl (Error ''At least two locations are required.''), [POST_extract_sequence ''Delhi'']) \<and>
   snd (fe_processLogisticsRequest (replying [delhi]) ''Delhi'') =
     [POST_extract_sequence ''Delhi'', POST_optimize_route [delhi]] \<and>
   fe_processLogisticsRequest (replying []) ''nowhere'' =
     (Inl (Error ''No locations found in your request. Please provide city names.''),
      [POST_extract_sequence ''nowhere''])"
proof -
  have one: "post_extract_sequence (replying [delhi]) ''Delhi'' =
               Inr \<lparr>parsed_locations = Some [delhi]\<rparr>"
    and none: "post_extract_sequence (replying []) ''nowhere'' =
               Inr \<lparr>parsed_locations = Some []\<rparr>"
    by (simp_all add: replying_def)
  have "parsed_locations \<lparr>parsed_locations = Some [delhi]\<rparr> = Some [delhi]"
    and "parsed_locations \<lparr>parsed_locations = Some []\<rparr> = Some []"
    and "length [delhi] < 2" and "length ([] :: location list) < 2"
    by simp_all
  with one none show ?thesis
    using processLogisticsRequest_short_list_in_both_copies
            [of "replying [delhi]" "''Delhi''" "\<lparr>parsed_locations = Some [delhi]\<rparr>" "[delhi]"]
      processLogisticsRequest_short_list_in_both_copies
            [of "replying []" "''nowhere''" "\<lparr>parsed_locations = Some []\<rparr>" "[]"]
    by simp
qed

section \<open>The map flow\<close>

lemma length_enrichedLocations: "length (enrichedLocations locs) = length locs"
  by (simp add: enrichedLocations_def)

lemma nth_enrichedLocations:
  "i < length locs \<Longrightarrow>
   enrichedLocations locs ! i =
     \<lparr>name = name (locs ! i), lat = lat (locs ! i), lon = lon (locs ! i),
      visit_sequence = Some (int i + 1)\<rparr>"
  by (simp add: enrichedLocations_def nth_enumerate_eq)

text \<open>The adapter leaves the numbers the map flow has assigned as they are.\<close>

lemma optimizeRoute_payload_enrichedLocations:
  "optimizeRoute_payload (enrichedLocations locs) = enrichedLocations locs"
  by (rule nth_equalityI)
     (simp_all add: length_optimizeRoute_payload length_enrichedLocations
        nth_optimizeRoute_payload nth_enrichedLocations)

lemma optimizeFromMap_calls:
  "2 \<le> length locs \<Longrightarrow>
   snd (optimizeFromMap api (Some locs)) = [POST_optimize_route (enrichedLocations locs)]"
  by (simp add: optimizeFromMap_def optimizeRoute_calls optimizeRoute_payload_enrichedLocations)

text \<open>A number that a selected location already carries is overwritten.\<close>

lemma optimizeFromMap_overwrites:
  "snd (optimizeFromMap (replying []) (Some [mumbai, delhi])) =
     [POST_optimize_route
        [mumbai\<lparr>visit_sequence := Some 1\<rparr>, delhi\<lparr>visit_sequence := Some 2\<rparr>]]"
  by (simp add: optimizeFromMap_calls)
     (simp add: enrichedLocations_def mumbai_def delhi_def)



text \<open>
  C6. For every list of fewer than two locations, \<^verbatim>\<open>optimizeFromMap\<close> rejects
  with the message "Select at least two locations." and makes no call.
\<close>

theorem optimizeFromMap_rejects_short:
  assumes "length locs < 2"
  shows "optimizeFromMap api (Some locs) = (Inl (Error ''Select at least two locations.''), [])"
  using assms by (simp add: optimizeFromMap_def)

theorem optimizeFromMap_rejects_short_witness:
  "optimizeFromMap (replying []) (Some [stop_A]) =
     (Inl (Error ''Select at least two locations.''), []) \<and>
   optimizeFromMap (replying []) (Some []) =
     (Inl (Error ''Select at least two locations.''), [])"
proof -
  have one: "length [stop_A] < 2" and none: "length ([] :: location list) < 2" by simp_all
  show ?thesis
    using optimizeFromMap_rejects_short [OF one, of "replying []"]
      optimizeFromMap_rejects_short [OF none, of "replying []"]
    by simp
qed

text \<open>
  C10. Called with null or undefined, \<^verbatim>\<open>optimizeFromMap\<close> does what it does for
  the empty list: it rejects with "Select at least two locations." and makes no call.
\<close>

theorem optimizeFromMap_null_argument:
  "optimizeFromMap api None = (Inl (Error ''Select at least two locations.''), []) \<and>
   optimizeFromMap api None = optimizeFromMap api (Some [])"
  by (simp add: optimizeFromMap_def)

section \<open>Failures of the remote calls\<close>

lemma detail_of_no_response: "response e = None \<Longrightarrow> detail_of e = None"
  by (simp add: detail_of_def)

lemma detail_of_response:
  "response e = Some r \<Longrightarrow> data r = Some b \<Longrightarrow> detail_of e = detail b"
  by (simp add: detail_of_def)

lemma detail_of_Some_iff:
  "detail_of e = Some d \<longleftrightarrow>
     (\<exists>r b. response e = Some r \<and> data r = Some b \<and> detail b = Some d)"
  by (auto simp: detail_of_def split: option.splits)

text \<open>
  The adapters of \<^verbatim>\<open>src/services/api.js\<close> have no handler: the rejection of the
  transport client reaches the caller as it is, with the message axios gave it.
\<close>

lemma extractSequence_passes_error_on:
  "post_extract_sequence api requestText = Inl e \<Longrightarrow>
   fst (extractSequence api requestText) = Inl (AxiosError e)"
  by (simp add: extractSequence_def)

lemma optimizeRoute_passes_error_on:
  "post_optimize_route api (optimizeRoute_payload locs) = Inl e \<Longrightarrow>
   fst (optimizeRoute api locs) = Inl (AxiosError e)"
  by (simp add: optimizeRoute_def Let_def)

text \<open>
  C4, as written, fails in both copies of the module. In
  \<^verbatim>\<open>frontend/src/services/api.js\<close>, when the body of the reply carries the empty
  string as its detail, \<^verbatim>\<open>detail || fallback\<close> takes the fallback, so the message
  is not the detail string. In \<^verbatim>\<open>src/services/api.js\<close> a reply with status 500
  and the detail "optimizer unavailable" reaches the caller as the error of axios, whose
  message is not the detail.
\<close>

theorem detail_message_counterexample:
  "detail_of (status_500 '''') = Some '''' \<and>
   fst (fe_extractSequence (failing (status_500 '''')) ''Delhi'') =
     Inl (Error ''Failed to extract locations from your request. Please try again.'') \<and>
   fst (fe_extractSequence (failing (status_500 '''')) ''Delhi'') \<noteq> Inl (Error '''') \<and>
   detail_of (status_500 ''optimizer unavailable'') = Some ''optimizer unavailable'' \<and>
   fst (optimizeRoute (failing (status_500 ''optimizer unavailable'')) [stop_A, stop_B]) =
     Inl (AxiosError (status_500 ''optimizer unavailable'')) \<and>
   message_of (AxiosError (status_500 ''optimizer unavailable'')) =
     ''Request failed with status code 500''"
  by (simp add: fe_extractSequence_def optimizeRoute_def Let_def failing_def status_500_def
        detail_of_def)

text \<open>
  C4, amended. When the remote call of \<^verbatim>\<open>extractSequence\<close> or
  \<^verbatim>\<open>optimizeRoute\<close> of \<^verbatim>\<open>frontend/src/services/api.js\<close> fails: if a reply
  was received whose body carries a detail that is not the empty string, the error
  raised has exactly that string as its message; if there is no detail (no reply, no
  body, or no detail in it) or the detail is the empty string, the message is the
  fallback string of the adapter. The two adapters of \<^verbatim>\<open>src/services/api.js\<close>
  raise the error of the transport client itself, whatever the reply carries.
\<close>

theorem adapters_error_message:
  "(\<forall>e. post_extract_sequence api requestText = Inl e \<longrightarrow>
      (\<forall>d. detail_of e = Some d \<and> d \<noteq> [] \<longrightarrow>
         fst (fe_extractSequence api requestText) = Inl (Error d)) \<and>
      (detail_of e = None \<or> detail_of e = Some [] \<longrightarrow>
         fst (fe_extractSequence api requestText) =
           Inl (Error ''Failed to extract locations from your request. Please try again.'')) \<and>
      fst (extractSequence api requestText) = Inl (AxiosError e)) \<and>
   (\<forall>e. post_optimize_route api locs = Inl e \<longrightarrow>
      (\<forall>d. detail_of e = Some d \<and> d \<noteq> [] \<longrightarrow>
         fst (fe_optimizeRoute api locs) = Inl (Error d)) \<and>
      (detail_of e = None \<or> detail_of e = Some [] \<longrightarrow>
         fst (fe_optimizeRoute api locs) =
           Inl (Error ''Failed to optimize route. Please check your input and try again.''))) \<and>
   (\<forall>e. post_optimize_route api (optimizeRoute_payload locs) = Inl e \<longrightarrow>
      fst (optimizeRoute api locs) = Inl (AxiosError e))"
proof -
  have frontend_extract:
    "fst (fe_extractSequence api requestText) =
       Inl (Error (or_else (detail_of e)
              ''Failed to extract locations from your request. Please try again.''))"
    if "post_extract_sequence api requestText = Inl e" for e
    using that by (simp add: fe_extractSequence_def)
  have frontend_optimize:
    "fst (fe_optimizeRoute api locs) =
       Inl (Error (or_else (detail_of e)
              ''Failed to optimize route. Please check your input and try again.''))"
    if "post_optimize_route api locs = Inl e" for e
    using that by (simp add: fe_optimizeRoute_def)
  show ?thesis
    using frontend_extract frontend_optimize
      extractSequence_passes_error_on [of api requestText]
      optimizeRoute_passes_error_on [of api locs]
    by auto
qed

theorem adapters_error_message_witness:
  "fst (fe_optimizeRoute (failing (status_500 ''optimizer unavailable'')) [stop_A, stop_B]) =
     Inl (Error ''optimizer unavailable'') \<and>
   fst (fe_extractSequence (failing no_response) ''Delhi'') =
     Inl (Error ''Failed to extract locations from your request. Please try again.'') \<and>
   fst (extractSequence (failing no_response) ''Delhi'') = Inl (AxiosError no_response)"
proof -
  have a: "post_optimize_route (failing (status_500 ''optimizer unavailable'')) [stop_A, stop_B] =
             Inl (status_500 ''optimizer unavailable'')"
    and b: "detail_of (status_500 ''optimizer unavailable'') = Some ''optimizer unavailable''"
    and c: "post_extract_sequence (failing no_response) ''Delhi'' = Inl no_response"
    and d: "detail_of no_response = None"
    by (simp_all add: failing_def status_500_def no_response_def detail_of_def)
  show ?thesis
    using adapters_error_message
            [of "failing (status_500 ''optimizer unavailable'')" "''Delhi''" "[stop_A, stop_B]"]
      adapters_error_message [of "failing no_response" "''Delhi''" "[stop_A, stop_B]"]
      a b c d
    by auto
qed

section \<open>The liveness probe\<close>

text \<open>
  C7. \<^verbatim>\<open>healthCheck\<close> never rejects, in either copy of the module. When the
  call fails, with or without a reply, it resolves to \<^verbatim>\<open>{ status: "offline" }\<close>,
  to which the frontend copy adds the message of the failure under \<^verbatim>\<open>error\<close>; so
  the object has a \<open>status\<close> field, reading "offline". When the call succeeds, it
  resolves to the body of the reply.
\<close>

theorem healthCheck_never_rejects:
  "(\<exists>obj. fst (healthCheck api) = Inr obj) \<and>
   (\<exists>obj. fst (fe_healthCheck api) = Inr obj) \<and>
   (\<forall>e. get_health api = Inl e \<longrightarrow>
      fst (healthCheck api) = Inr [(''status'', ''offline'')] \<and>
      fst (fe_healthCheck api) = Inr [(''status'', ''offline''), (''error'', message e)]) \<and>
   (\<forall>e obj. get_health api = Inl e \<longrightarrow>
      fst (healthCheck api) = Inr obj \<or> fst (fe_healthCheck api) = Inr obj \<longrightarrow>
      map_of obj ''status'' = Some ''offline'') \<and>
   (\<forall>d. get_health api = Inr d \<longrightarrow>
      fst (healthCheck api) = Inr d \<and> fst (fe_healthCheck api) = Inr d)"
  by (cases "get_health api") (auto simp: healthCheck_def fe_healthCheck_def)

theorem healthCheck_never_rejects_witness:
  "healthCheck (failing no_response) = (Inr [(''status'', ''offline'')], [GET_health]) \<and>
   fst (fe_healthCheck (failing (status_500 ''down''))) =
     Inr [(''status'', ''offline''), (''error'', ''Request failed with status code 500'')]"
proof -
  have a: "get_health (failing no_response) = Inl no_response"
    and b: "get_health (failing (status_500 ''down'')) = Inl (status_500 ''down'')"
    by (simp_all add: failing_def)
  have c: "snd (healthCheck (failing no_response)) = [GET_health]"
    by (simp add: healthCheck_def failing_def)
  from healthCheck_never_rejects [of "failing no_response"] a
  have "fst (healthCheck (failing no_response)) = Inr [(''status'', ''offline'')]" by blast
  moreover from healthCheck_never_rejects [of "failing (status_500 ''down'')"] b
  have "fst (fe_healthCheck (failing (status_500 ''down''))) =
          Inr [(''status'', ''offline''), (''error'', message (status_500 ''down''))]" by blast
  ultimately show ?thesis using c by (simp add: prod_eq_iff status_500_def)
qed

section \<open>The workflow state\<close>

lemma dropWhile_all_iff: "(\<forall>x\<in>set (dropWhile P s). P x) \<longleftrightarrow> (\<forall>c\<in>set s. P c)"
  by (induction s) auto

text \<open>The test \<^verbatim>\<open>!query.trim()\<close> holds of the strings that are white space only.\<close>

lemma trim_empty_iff: "trim s = [] \<longleftrightarrow> (\<forall>c\<in>set s. isWhiteSpace c)"
  by (simp add: trim_def dropWhile_all_iff)

text \<open>
  In the first copy the message of the error is shown as it is; the state is cleared in
  the same way.
\<close>

lemma handleSubmit_1_failed:
  assumes "trim (query s) \<noteq> []" and "process (query s) = (Inl err, calls)"
  shows "loading (fst (handleSubmit_1 process s)) = False \<and>
         stage (fst (handleSubmit_1 process s)) = Input \<and>
         error (fst (handleSubmit_1 process s)) = Some (message_of err)"
  using assms by (simp add: handleSubmit_1_def Let_def)

text \<open>A request that succeeds ends in the results stage, with what was extracted.\<close>

lemma handleSubmit_succeeded:
  assumes "trim (query s) \<noteq> []" and "process (query s) = (Inr result, calls)"
  shows "stage (fst (handleSubmit process s)) = Results \<and>
         loading (fst (handleSubmit process s)) = False \<and>
         error (fst (handleSubmit process s)) = None \<and>
         extractedLocations (fst (handleSubmit process s)) =
           parsed_locations (extracted result) \<and>
         optimizationResult (fst (handleSubmit process s)) = Some (optimized result)"
  using assms by (simp add: handleSubmit_def Let_def)

text \<open>
  C5. In the second copy of the component, whenever the call made by
  \<^verbatim>\<open>handleSubmit\<close> (on a query that is not blank) or by
  \<^verbatim>\<open>handleMapOptimization\<close> rejects, the state ends with \<open>loading\<close> false,
  the stage \<open>input\<close> and a non-empty error message; and \<open>loading\<close> is false at the end
  of the handler whether the call rejects or resolves. (An \<^verbatim>\<open>await\<close> inside
  \<^verbatim>\<open>try\<close> turns a throw of the callee and a rejection into the same branch.)
\<close>

theorem failed_submit_returns_to_input:
  "(trim (query s) \<noteq> [] \<longrightarrow>
      loading (fst (handleSubmit process s)) = False \<and>
      (\<forall>err calls. process (query s) = (Inl err, calls) \<longrightarrow>
         stage (fst (handleSubmit process s)) = Input \<and>
         (\<exists>msg. error (fst (handleSubmit process s)) = Some msg \<and> msg \<noteq> []))) \<and>
   loading (fst (handleMapOptimization optimize locations t)) = False \<and>
   (\<forall>err calls. optimize locations = (Inl err, calls) \<longrightarrow>
      stage (fst (handleMapOptimization optimize locations t)) = Input \<and>
      (\<exists>msg. error (fst (handleMapOptimization optimize locations t)) = Some msg \<and> msg \<noteq> []))"
proof -
  have submit: "loading (fst (handleSubmit process s)) = False" if "trim (query s) \<noteq> []"
    using that by (simp add: handleSubmit_def Let_def split: prod.splits sum.splits)
  have submit_failed:
    "stage (fst (handleSubmit process s)) = Input \<and>
     (\<exists>msg. error (fst (handleSubmit process s)) = Some msg \<and> msg \<noteq> [])"
    if "trim (query s) \<noteq> []" and "process (query s) = (Inl err, calls)" for err calls
    using that by (simp add: handleSubmit_def Let_def)
  have from_map: "loading (fst (handleMapOptimization optimize locations t)) = False"
    by (simp add: handleMapOptimization_def Let_def split: prod.splits sum.splits)
  have from_map_failed:
    "stage (fst (handleMapOptimization optimize locations t)) = Input \<and>
     (\<exists>msg. error (fst (handleMapOptimization optimize locations t)) = Some msg \<and> msg \<noteq> [])"
    if "optimize locations = (Inl err, calls)" for err calls
    using that by (simp add: handleMapOptimization_def Let_def)
  from submit submit_failed from_map from_map_failed show ?thesis by blast
qed

theorem failed_submit_returns_to_input_witness:
  "loading (fst (handleSubmit (processLogisticsRequest (replying [delhi]))
                   (initial_state\<lparr>query := ''Delhi''\<rparr>))) = False \<and>
   stage (fst (handleSubmit (processLogisticsRequest (replying [delhi]))
                 (initial_state\<lparr>query := ''Delhi''\<rparr>))) = Input \<and>
   error (fst (handleSubmit (processLogisticsRequest (replying [delhi]))
                 (initial_state\<lparr>query := ''Delhi''\<rparr>))) \<noteq> None \<and>
   loading (fst (handleMapOptimization (optimizeRoute (failing no_response)) [stop_A, stop_B]
                   initial_map_state)) = False \<and>
   stage (fst (handleMapOptimization (optimizeRoute (failing no_response)) [stop_A, stop_B]
                 initial_map_state)) = Input \<and>
   error (fst (handleMapOptimization (optimizeRoute (failing no_response)) [stop_A, stop_B]
                 initial_map_state)) \<noteq> None"
proof -
  have typed: "trim (query (initial_state\<lparr>query := ''Delhi''\<rparr>)) \<noteq> []"
    by (simp add: initial_state_def trim_def isWhiteSpace_def)
  have rejected:
    "processLogisticsRequest (replying [delhi]) (query (initial_state\<lparr>query := ''Delhi''\<rparr>)) =
       (Inl (Error ''At least two locations are required.''), [POST_extract_sequence ''Delhi''])"
    by (simp add: initial_state_def processLogisticsRequest_def extractSequence_def replying_def)
  have unreachable:
    "optimizeRoute (failing no_response) [stop_A, stop_B] =
       (Inl (AxiosError no_response),
        [POST_optimize_route (optimizeRoute_payload [stop_A, stop_B])])"
    by (simp add: optimizeRoute_def failing_def Let_def)
  show ?thesis
    using failed_submit_returns_to_input
            [of "initial_state\<lparr>query := ''Delhi''\<rparr>" "processLogisticsRequest (replying [delhi])"
                "optimizeRoute (failing no_response)" "[stop_A, stop_B]" initial_map_state]
      typed rejected unreachable
    by auto
qed

text \<open>
  Scenario B: the text "Delhi", from which one location is extracted, ends in the input
  stage with the message of the text flow, after the extraction call alone.
\<close>

lemma single_location_scenario:
  "handleSubmit (processLogisticsRequest (replying [delhi])) (initial_state\<lparr>query := ''Delhi''\<rparr>) =
     (\<lparr>query = ''Delhi'', loading = False,
       error = Some ''At least two locations are required.'',
       extractedLocations = None, optimizationResult = None, stage = Input\<rparr>,
      [POST_extract_sequence ''Delhi''])"
  by (simp add: handleSubmit_def processLogisticsRequest_def extractSequence_def replying_def
        initial_state_def trim_def isWhiteSpace_def)

text \<open>
  Two selected locations, given to \<^verbatim>\<open>handleMapOptimization\<close> with the adapter of
  \<^verbatim>\<open>src/services/api.js\<close> behind it: the request carries the numbers 1 and 2,
  and the selection is what is displayed.
\<close>

lemma map_selection_scenario:
  "handleMapOptimization (optimizeRoute (replying [])) [stop_A, stop_B] initial_map_state =
     (\<lparr>query = '''', loading = False, error = None,
       extractedLocations = Some [stop_A, stop_B], optimizationResult = Some 2,
       stage = Results, showMap = False\<rparr>,
      [POST_optimize_route
         [stop_A\<lparr>visit_sequence := Some 1\<rparr>, stop_B\<lparr>visit_sequence := Some 2\<rparr>]])"
  by (simp add: handleMapOptimization_def optimizeRoute_def optimizeRoute_payload_def
        replying_def initial_map_state_def stop_A_def stop_B_def Let_def)

text \<open>\<^verbatim>\<open>handleReset\<close> does not touch \<open>loading\<close>.\<close>

lemma handleReset_keeps_loading: "loading (handleReset s) = loading s"
  by (simp add: handleReset_def)

text \<open>
  C8. From every state, whatever its stage, \<^verbatim>\<open>handleReset\<close> gives a state with
  the stage \<open>input\<close>, the empty query, and no error, no extracted locations and no
  optimization result.
\<close>

theorem handleReset_yields_input:
  "stage (handleReset s) = Input \<and> query (handleReset s) = '''' \<and>
   error (handleReset s) = None \<and> extractedLocations (handleReset s) = None \<and>
   optimizationResult (handleReset s) = None"
  by (simp add: handleReset_def)

text \<open>
  C9. When the query is blank (empty, or white space only), \<^verbatim>\<open>handleSubmit\<close>, in
  either copy, sets the error and nothing else: the stage and \<open>loading\<close> are what they
  were, so a submit made in the input stage stays there; the function it would call is
  not used, and no call is made on the transport client.
\<close>

theorem handleSubmit_blank_query:
  assumes "\<forall>c\<in>set (query s). isWhiteSpace c"
  shows "handleSubmit process s =
           (s\<lparr>error := Some ''Please enter a logistics request''\<rparr>, []) \<and>
         handleSubmit_1 process s =
           (s\<lparr>error := Some ''Please enter a logistics request''\<rparr>, []) \<and>
         stage (fst (handleSubmit process s)) = stage s \<and>
         loading (fst (handleSubmit process s)) = loading s \<and>
         stage (fst (handleSubmit_1 process s)) = stage s \<and>
         loading (fst (handleSubmit_1 process s)) = loading s"
  using assms by (simp add: handleSubmit_def handleSubmit_1_def trim_empty_iff)

theorem handleSubmit_blank_query_witness:
  "handleSubmit (processLogisticsRequest (replying [stop_A, stop_B]))
     (initial_state\<lparr>query := ''  ''\<rparr>) =
     (\<lparr>query = ''  '', loading = False, error = Some ''Please enter a logistics request'',
       extractedLocations = None, optimizationResult = None, stage = Input\<rparr>, [])"
proof -
  have blank: "\<forall>c\<in>set (query (initial_state\<lparr>query := ''  ''\<rparr>)). isWhiteSpace c"
    by (simp add: isWhiteSpace_def)
  show ?thesis
    using handleSubmit_blank_query
            [OF blank, of "processLogisticsRequest (replying [stop_A, stop_B])"]
    by (simp add: initial_state_def)
qed

end
